theory Spec2Isabelle
  imports Main
begin

unbundle bit_operations_syntax

section \<open>Permission extraction (get_file_permissions)\<close>

text \<open>
  Python integers are unbounded: the mode word \<open>st_mode\<close> and the ids are \<open>int\<close>.
  The constants are those of the standard \<open>stat\<close> module (octal in the source of
  that module, decimal here).
\<close>

definition S_IRUSR :: int where "S_IRUSR = 256"
definition S_IWUSR :: int where "S_IWUSR = 128"
definition S_IXUSR :: int where "S_IXUSR = 64"
definition S_IRGRP :: int where "S_IRGRP = 32"
definition S_IWGRP :: int where "S_IWGRP = 16"
definition S_IXGRP :: int where "S_IXGRP = 8"
definition S_IROTH :: int where "S_IROTH = 4"
definition S_IWOTH :: int where "S_IWOTH = 2"
definition S_IXOTH :: int where "S_IXOTH = 1"

definition S_ISUID :: int where "S_ISUID = 2048"
definition S_ISGID :: int where "S_ISGID = 1024"
definition S_ISVTX :: int where "S_ISVTX = 512"

definition S_IFLNK :: int where "S_IFLNK = 40960"
definition S_IFSOCK :: int where "S_IFSOCK = 49152"
definition S_IFREG :: int where "S_IFREG = 32768"
definition S_IFBLK :: int where "S_IFBLK = 24576"
definition S_IFDIR :: int where "S_IFDIR = 16384"
definition S_IFCHR :: int where "S_IFCHR = 8192"
definition S_IFIFO :: int where "S_IFIFO = 4096"

text \<open>\<open>stat.S_IFMT(mode)\<close>: the bits of the mode that give the file type.\<close>

definition S_IFMT :: "int \<Rightarrow> int" where
  "S_IFMT m = m AND 61440"

lemmas stat_consts =
  S_IRUSR_def S_IWUSR_def S_IXUSR_def S_IRGRP_def S_IWGRP_def S_IXGRP_def
  S_IROTH_def S_IWOTH_def S_IXOTH_def S_ISUID_def S_ISGID_def S_ISVTX_def
  S_IFLNK_def S_IFSOCK_def S_IFREG_def S_IFBLK_def S_IFDIR_def S_IFCHR_def S_IFIFO_def

text \<open>Python's \<open>bool(n)\<close> on an integer.\<close>

definition py_bool :: "int \<Rightarrow> bool" where
  "py_bool n = (n \<noteq> 0)"

record stat_result =
  st_mode :: int
  st_uid :: int
  st_gid :: int
  st_size :: int

text \<open>The inner dictionaries with the keys \<open>read\<close>, \<open>write\<close> and \<open>execute\<close> (\<open>write\<close> is
  reserved in Isabelle, hence the suffix).\<close>

record rwx =
  read_perm :: bool
  write_perm :: bool
  execute_perm :: bool

text \<open>The dictionary built by \<open>get_file_permissions\<close>, one field per key.\<close>

record permissions =
  user :: rwx
  group :: rwx
  other :: rwx
  owner :: int
  group_id :: int
  mode :: string
  file_size :: int

text \<open>
  \<open>stat.filemode\<close>, as the interpreter computes it (the \<open>stat\<close> module replaces its own
  Python definitions by those of the built-in \<open>_stat\<close> module). The first character is
  found by comparing the type field of the mode with the known file types, and is \<open>?\<close>
  when it is none of them. Each of the nine permission characters has a table: the first
  entry whose bits are all set in the mode gives the character, and \<open>-\<close> is the default.
  \<open>os.stat\<close> gives a mode that fits the mode type of the platform, where the function
  raises nothing.
\<close>

definition filetype :: "int \<Rightarrow> char" where
  "filetype m =
     (if S_IFMT m = S_IFREG then CHR ''-''
      else if S_IFMT m = S_IFDIR then CHR ''d''
      else if S_IFMT m = S_IFLNK then CHR ''l''
      else if S_IFMT m = S_IFBLK then CHR ''b''
      else if S_IFMT m = S_IFCHR then CHR ''c''
      else if S_IFMT m = S_IFIFO then CHR ''p''
      else if S_IFMT m = S_IFSOCK then CHR ''s''
      else CHR ''?'')"

fun filemode_char :: "int \<Rightarrow> (int \<times> char) list \<Rightarrow> char" where
  "filemode_char m [] = CHR ''-''"
| "filemode_char m ((b, c) # tbl) = (if m AND b = b then c else filemode_char m tbl)"

definition filemode_table :: "(int \<times> char) list list" where
  "filemode_table =
    [ [(S_IRUSR, CHR ''r'')],
      [(S_IWUSR, CHR ''w'')],
      [(S_IXUSR OR S_ISUID, CHR ''s''), (S_ISUID, CHR ''S''), (S_IXUSR, CHR ''x'')],
      [(S_IRGRP, CHR ''r'')],
      [(S_IWGRP, CHR ''w'')],
      [(S_IXGRP OR S_ISGID, CHR ''s''), (S_ISGID, CHR ''S''), (S_IXGRP, CHR ''x'')],
      [(S_IROTH, CHR ''r'')],
      [(S_IWOTH, CHR ''w'')],
      [(S_IXOTH OR S_ISVTX, CHR ''t''), (S_ISVTX, CHR ''T''), (S_IXOTH, CHR ''x'')] ]"

definition filemode :: "int \<Rightarrow> string" where
  "filemode m = filetype m # map (filemode_char m) filemode_table"

text \<open>The body of the \<open>try\<close> block of \<open>get_file_permissions\<close>, given the stat result.\<close>

definition permissions_of :: "stat_result \<Rightarrow> permissions" where
  "permissions_of stat_info =
    \<lparr> user = \<lparr> read_perm = py_bool (st_mode stat_info AND S_IRUSR),
                write_perm = py_bool (st_mode stat_info AND S_IWUSR),
                execute_perm = py_bool (st_mode stat_info AND S_IXUSR) \<rparr>,
      group = \<lparr> read_perm = py_bool (st_mode stat_info AND S_IRGRP),
                 write_perm = py_bool (st_mode stat_info AND S_IWGRP),
                 execute_perm = py_bool (st_mode stat_info AND S_IXGRP) \<rparr>,
      other = \<lparr> read_perm = py_bool (st_mode stat_info AND S_IROTH),
                 write_perm = py_bool (st_mode stat_info AND S_IWOTH),
                 execute_perm = py_bool (st_mode stat_info AND S_IXOTH) \<rparr>,
      owner = st_uid stat_info,
      group_id = st_gid stat_info,
      mode = filemode (st_mode stat_info),
      file_size = st_size stat_info \<rparr>"

text \<open>
  The re-encoding of the nine booleans that the round-trip property speaks of (it is not
  part of the program): each boolean contributes its POSIX bit.
\<close>

definition encode_rwx :: "rwx \<Rightarrow> int" where
  "encode_rwx p = (if read_perm p then 4 else 0) + (if write_perm p then 2 else 0) +
     (if execute_perm p then 1 else 0)"

definition encode_matrix :: "permissions \<Rightarrow> int" where
  "encode_matrix p = 64 * encode_rwx (user p) + 8 * encode_rwx (group p) + encode_rwx (other p)"


section \<open>Exceptions, log records and the trace of effects\<close>

text \<open>
  An exception is a value; the constructor is its class, the string its message. All of
  them are subclasses of \<open>Exception\<close>. The argument of a \<open>KeyError\<close> is the key that was
  not found, and its text is the key in quotes; \<open>OtherException\<close> stands for every other
  class the program has no handler of its own for (\<open>ValueError\<close>, \<open>RecursionError\<close>, ...).
\<close>

datatype exn =
    OSError string
  | TemplateError string
  | JSONDecodeError string
  | YAMLError string
  | KeyError string
  | OtherException string

fun str_exn :: "exn \<Rightarrow> string" where
  "str_exn (OSError s) = s"
| "str_exn (TemplateError s) = s"
| "str_exn (JSONDecodeError s) = s"
| "str_exn (YAMLError s) = s"
| "str_exn (KeyError k) = [CHR 0x27] @ k @ [CHR 0x27]"
| "str_exn (OtherException s) = s"

datatype level = DEBUG | INFO | WARNING | ERROR

text \<open>
  What a run does besides computing values: calls of the \<open>logging\<close> functions,
  \<open>os.stat\<close> calls (the metadata reads) and opening a file for writing.
\<close>

datatype event =
    Log level string
  | Stat string
  | OpenW string

section \<open>Path functions (posixpath)\<close>

text \<open>\<open>s.split('/')\<close> and \<open>'/'.join(xs)\<close>.\<close>

fun split_sep :: "string \<Rightarrow> string list" where
  "split_sep [] = [[]]"
| "split_sep (c # cs) =
     (if c = CHR ''/'' then [] # split_sep cs
      else (case split_sep cs of [] \<Rightarrow> [[c]] | x # xs \<Rightarrow> (c # x) # xs))"

fun join_sep :: "string list \<Rightarrow> string" where
  "join_sep [] = []"
| "join_sep [x] = x"
| "join_sep (x # y # ys) = x @ ''/'' @ join_sep (y # ys)"

text \<open>\<open>os.path.join(a, b)\<close>.\<close>

definition startswith_sep :: "string \<Rightarrow> bool" where
  "startswith_sep p = (case p of [] \<Rightarrow> False | c # _ \<Rightarrow> c = CHR ''/'')"

definition endswith_sep :: "string \<Rightarrow> bool" where
  "endswith_sep p = (p \<noteq> [] \<and> last p = CHR ''/'')"

definition join :: "string \<Rightarrow> string \<Rightarrow> string" where
  "join a b =
     (if startswith_sep b then b
      else if a = [] \<or> endswith_sep a then a @ b
      else a @ ''/'' @ b)"

text \<open>
  \<open>os.path.normpath\<close>: the loop over the components, then the initial slashes (one, or
  two when the path starts with exactly two).
\<close>

fun norm_comps :: "nat \<Rightarrow> string list \<Rightarrow> string list \<Rightarrow> string list" where
  "norm_comps initial_slashes [] new_comps = new_comps"
| "norm_comps initial_slashes (part # comps) new_comps =
     (if part = [] \<or> part = ''.'' then norm_comps initial_slashes comps new_comps
      else if part \<noteq> ''..'' \<or> (initial_slashes = 0 \<and> new_comps = [])
              \<or> (new_comps \<noteq> [] \<and> last new_comps = ''..'')
        then norm_comps initial_slashes comps (new_comps @ [part])
      else if new_comps \<noteq> [] then norm_comps initial_slashes comps (butlast new_comps)
      else norm_comps initial_slashes comps new_comps)"

definition initial_slashes_of :: "string \<Rightarrow> nat" where
  "initial_slashes_of p =
     (if \<not> startswith_sep p then 0
      else if take 2 p = ''//'' \<and> take 3 p \<noteq> ''///'' then 2
      else 1)"

definition normpath :: "string \<Rightarrow> string" where
  "normpath p =
     (if p = [] then ''.''
      else let n = initial_slashes_of p;
               r = replicate n CHR ''/'' @ join_sep (norm_comps n (split_sep p) [])
           in if r = [] then ''.'' else r)"

text \<open>
  \<open>os.path.abspath\<close> asks for the working directory when the path is relative, which
  can fail; \<open>cwd\<close> is the outcome of \<open>os.getcwd()\<close>.
\<close>

definition abspath :: "exn + string \<Rightarrow> string \<Rightarrow> exn + string" where
  "abspath cwd p =
     (if startswith_sep p then Inr (normpath p)
      else (case cwd of Inl e \<Rightarrow> Inl e | Inr d \<Rightarrow> Inr (normpath (join d p))))"

fun commonprefix_len :: "string list \<Rightarrow> string list \<Rightarrow> nat" where
  "commonprefix_len (x # xs) (y # ys) = (if x = y then Suc (commonprefix_len xs ys) else 0)"
| "commonprefix_len _ _ = 0"

text \<open>\<open>os.path.relpath(path, start)\<close>; an empty \<open>path\<close> raises \<open>ValueError\<close>.\<close>

definition relpath :: "exn + string \<Rightarrow> string \<Rightarrow> string \<Rightarrow> exn + string" where
  "relpath cwd p start =
     (if p = [] then Inl (OtherException ''no path specified'')
      else (case abspath cwd start of
              Inl e \<Rightarrow> Inl e
            | Inr astart \<Rightarrow>
               (case abspath cwd p of
                  Inl e \<Rightarrow> Inl e
                | Inr apath \<Rightarrow>
                   (let start_list = filter (\<lambda>x. x \<noteq> []) (split_sep astart);
                        path_list = filter (\<lambda>x. x \<noteq> []) (split_sep apath);
                        i = commonprefix_len start_list path_list;
                        rel_list = replicate (length start_list - i) ''..'' @ drop i path_list
                    in if rel_list = [] then Inr ''.'' else Inr (join_sep rel_list)))))"

section \<open>The file system and the external collaborators\<close>

text \<open>
  What the program observes of the file system. \<open>walk top\<close> is the sequence of triples
  (root, directories, files) that \<open>os.walk(top)\<close> yields. Called without \<open>onerror\<close>, as
  the program does, \<open>os.walk\<close> raises no \<open>OSError\<close>: it ignores every directory it cannot
  list, so a root that does not exist or cannot be opened yields nothing.
  \<open>os_stat\<close> is the outcome of \<open>os.stat\<close> on a path:
  the stat result, or the message of the \<open>OSError\<close> it raises (the only exception the
  call raises on a path that \<open>os.walk\<close> produced).
  \<open>open_w\<close> is the exception raised by opening a path for writing, if any, and
  \<open>write_limit\<close> the number of characters the device accepts at a path before a write
  fails (\<open>None\<close>: no limit).
\<close>

record world =
  getcwd :: "exn + string"
  isdir :: "string \<Rightarrow> bool"
  isfile :: "string \<Rightarrow> bool"
  walk :: "string \<Rightarrow> (string \<times> string list \<times> string list) list"
  os_stat :: "string \<Rightarrow> string + stat_result"
  open_w :: "string \<Rightarrow> exn option"
  write_limit :: "string \<Rightarrow> nat option"

text \<open>The contents of the files the program may write.\<close>

type_synonym files = "string \<rightharpoonup> string"

text \<open>
  The libraries the program calls are parameters of the model. A compiled \<open>PathSpec\<close>
  is seen through its \<open>match_file\<close>; \<open>from_lines\<close> takes the name of the pattern
  factory and the pattern lines and may raise. \<open>jinja_render\<close> stands for the three
  calls that build the environment, load the template and render it with
  \<open>files=data\<close>. \<open>'v\<close> is the type of the values the parsers produce; a dump gives the
  text it wrote and the exception that ended it, if any.
\<close>

type_synonym pathspec = "string \<Rightarrow> bool"

record file_record =
  file_path :: string
  permissions :: permissions

record 'v libs =
  from_lines :: "string \<Rightarrow> string list \<Rightarrow> exn + pathspec"
  jinja_render :: "string \<Rightarrow> file_record list \<Rightarrow> exn + string"
  json_loads :: "string \<Rightarrow> exn + 'v"
  json_dump :: "'v \<Rightarrow> nat \<Rightarrow> string \<times> exn option"
  yaml_installed :: bool
  yaml_safe_load :: "string \<Rightarrow> exn + 'v"
  yaml_dump :: "'v \<Rightarrow> nat \<Rightarrow> string \<times> exn option"

section \<open>get_file_permissions\<close>

text \<open>
  The result is the trace of effects and the value returned: \<open>None\<close> after an
  \<open>OSError\<close>, which is logged.
\<close>

definition get_file_permissions :: "world \<Rightarrow> string \<Rightarrow> event list \<times> permissions option" where
  "get_file_permissions w path =
     (case os_stat w path of
        Inr stat_info \<Rightarrow> ([Stat path], Some (permissions_of stat_info))
      | Inl msg \<Rightarrow>
          ([Stat path, Log ERROR (''Error getting permissions for '' @ path @ '': '' @ msg)],
           None))"

section \<open>analyze_directory_permissions\<close>

text \<open>The inner loop \<open>for file in files\<close>; the accumulator is \<open>file_permissions_data\<close>.\<close>

fun scan_files ::
  "pathspec \<Rightarrow> world \<Rightarrow> string \<Rightarrow> string \<Rightarrow> string list \<Rightarrow> event list \<times> file_record list
     \<Rightarrow> event list \<times> (exn + file_record list)" where
  "scan_files spec w source_dir root [] (tr, acc) = (tr, Inr acc)"
| "scan_files spec w source_dir root (file # rest) (tr, acc) =
     (let path = join root file in
      case relpath (getcwd w) path source_dir of
        Inl e \<Rightarrow> (tr, Inl e)
      | Inr relative_path \<Rightarrow>
          if spec relative_path
          then scan_files spec w source_dir root rest
                 (tr @ [Log DEBUG (''Excluding file: '' @ path)], acc)
          else (case get_file_permissions w path of
                  (tr', None) \<Rightarrow> scan_files spec w source_dir root rest (tr @ tr', acc)
                | (tr', Some perms) \<Rightarrow>
                    scan_files spec w source_dir root rest
                      (tr @ tr', acc @ [\<lparr>file_path = relative_path, permissions = perms\<rparr>])))"

text \<open>The outer loop over what \<open>os.walk(source_dir)\<close> yields.\<close>

fun scan_walk ::
  "pathspec \<Rightarrow> world \<Rightarrow> string \<Rightarrow> (string \<times> string list \<times> string list) list
     \<Rightarrow> event list \<times> file_record list \<Rightarrow> event list \<times> (exn + file_record list)" where
  "scan_walk spec w source_dir [] (tr, acc) = (tr, Inr acc)"
| "scan_walk spec w source_dir ((root, dirs, fs) # items) (tr, acc) =
     (case scan_files spec w source_dir root fs (tr, acc) of
        (tr', Inl e) \<Rightarrow> (tr', Inl e)
      | (tr', Inr acc') \<Rightarrow> scan_walk spec w source_dir items (tr', acc'))"

text \<open>The body of the \<open>try\<close> block.\<close>

definition scan_body ::
  "'v libs \<Rightarrow> world \<Rightarrow> string \<Rightarrow> string list \<Rightarrow> event list \<times> (exn + file_record list)" where
  "scan_body lib w source_dir exclude_patterns =
     (case from_lines lib ''gitwildcard'' exclude_patterns of
        Inl e \<Rightarrow> ([], Inl e)
      | Inr spec \<Rightarrow> scan_walk spec w source_dir (walk w source_dir) ([], []))"

text \<open>
  Only an \<open>OSError\<close> is caught: it is logged and the empty list is returned. Inside the
  \<open>try\<close> block it is \<open>os.getcwd\<close>, which \<open>os.path.relpath\<close> calls for a relative path,
  that can raise one. Any other exception leaves the function.
\<close>

definition analyze_directory_permissions ::
  "'v libs \<Rightarrow> world \<Rightarrow> string \<Rightarrow> string list \<Rightarrow> event list \<times> (exn + file_record list)" where
  "analyze_directory_permissions lib w source_dir exclude_patterns =
     (case scan_body lib w source_dir exclude_patterns of
        (tr, Inl (OSError msg)) \<Rightarrow>
          (tr @ [Log ERROR (''Error walking directory '' @ source_dir @ '': '' @ msg)], Inr [])
      | (tr, Inl e) \<Rightarrow> (tr, Inl e)
      | (tr, Inr file_permissions_data) \<Rightarrow> (tr, Inr file_permissions_data))"

section \<open>render_template\<close>

definition render_template ::
  "'v libs \<Rightarrow> string \<Rightarrow> file_record list \<Rightarrow> event list \<times> (exn + string option)" where
  "render_template lib template_file data =
     (case jinja_render lib template_file data of
        Inr rendered_template \<Rightarrow> ([], Inr (Some rendered_template))
      | Inl (TemplateError msg) \<Rightarrow>
          ([Log ERROR (''Error rendering template '' @ template_file @ '': '' @ msg)], Inr None)
      | Inl e \<Rightarrow> ([], Inl e))"

section \<open>write_output\<close>

text \<open>
  \<open>with open(output_file, "w") as f: dump(data, f, ...)\<close>: opening truncates the file;
  the text of the dump is stored up to the limit of the device; the exception is the one
  of the open, else the one of the device when the limit is exceeded, else the one of the
  dump.
\<close>

definition write_file ::
  "world \<Rightarrow> files \<Rightarrow> string \<Rightarrow> string \<times> exn option \<Rightarrow> event list \<times> files \<times> exn option" where
  "write_file w fs path dumped =
     (case open_w w path of
        Some e \<Rightarrow> ([OpenW path], fs, Some e)
      | None \<Rightarrow>
          (case write_limit w path of
             None \<Rightarrow> ([OpenW path], fs(path \<mapsto> fst dumped), snd dumped)
           | Some n \<Rightarrow>
               if n < length (fst dumped)
               then ([OpenW path], fs(path \<mapsto> take n (fst dumped)),
                     Some (OSError ''No space left on device''))
               else ([OpenW path], fs(path \<mapsto> fst dumped), snd dumped)))"

text \<open>
  The outer handlers of \<open>write_output\<close>: after a successful write the success is logged;
  an \<open>OSError\<close> and any other exception are logged, each with its message.
\<close>

definition finish_write :: "string \<Rightarrow> event list \<times> files \<times> exn option \<Rightarrow> event list \<times> files" where
  "finish_write output_file r =
     (case r of
        (tr, fs, None) \<Rightarrow> (tr @ [Log INFO (''Successfully wrote output to '' @ output_file)], fs)
      | (tr, fs, Some (OSError msg)) \<Rightarrow>
          (tr @ [Log ERROR (''Error writing to file '' @ output_file @ '': '' @ msg)], fs)
      | (tr, fs, Some e) \<Rightarrow>
          (tr @ [Log ERROR (''An unexpected error occurred: '' @ str_exn e)], fs))"

definition write_output ::
  "'v libs \<Rightarrow> world \<Rightarrow> files \<Rightarrow> string \<Rightarrow> string \<Rightarrow> string \<Rightarrow> event list \<times> files" where
  "write_output lib w fs output_file data output_format =
     (if output_format = ''json'' then
        (case json_loads lib data of
           Inl (JSONDecodeError msg) \<Rightarrow> ([Log ERROR (''Invalid JSON data: '' @ msg)], fs)
         | Inl e \<Rightarrow> finish_write output_file ([], fs, Some e)
         | Inr json_data \<Rightarrow>
             finish_write output_file (write_file w fs output_file (json_dump lib json_data 4)))
      else if output_format = ''yaml'' then
        (if \<not> yaml_installed lib then
           ([Log ERROR ''PyYAML is not installed. Please install it to use YAML output format.''], fs)
         else
           (case yaml_safe_load lib data of
              Inl (YAMLError msg) \<Rightarrow> ([Log ERROR (''Invalid YAML data: '' @ msg)], fs)
            | Inl e \<Rightarrow> finish_write output_file ([], fs, Some e)
            | Inr yaml_data \<Rightarrow>
                finish_write output_file (write_file w fs output_file (yaml_dump lib yaml_data 2))))
      else ([Log ERROR (''Invalid output format: '' @ output_format)], fs))"

section \<open>main\<close>

record args =
  source_dir :: string
  output_file :: string
  template_file :: string
  exclude_patterns :: "string list"
  output_format :: string

text \<open>
  How the process ends: \<open>sys.exit(n)\<close> or the normal return of \<open>main\<close> (status 0), or an
  exception nobody caught, which the interpreter reports with status 1.
\<close>

datatype ending = Exit nat | Uncaught exn

fun exit_status :: "ending \<Rightarrow> nat" where
  "exit_status (Exit n) = n"
| "exit_status (Uncaught e) = 1"

text \<open>
  The statements of \<open>main\<close> that follow the scan, given the list the scan returned: the
  warning for an empty list, the rendering, the exit when the rendering failed, and the
  write, after which \<open>main\<close> returns.
\<close>

definition render_and_write ::
  "'v libs \<Rightarrow> world \<Rightarrow> files \<Rightarrow> args \<Rightarrow> file_record list \<Rightarrow> event list \<times> files \<times> ending" where
  "render_and_write lib w fs a permissions_data =
     (let tr2 = (if permissions_data = []
                 then [Log WARNING
                   ''No permissions data collected.  Check source directory and exclude patterns.'']
                 else [])
      in case render_template lib (template_file a) permissions_data of
           (tr3, Inl e) \<Rightarrow> (tr2 @ tr3, fs, Uncaught e)
         | (tr3, Inr None) \<Rightarrow> (tr2 @ tr3, fs, Exit 1)
         | (tr3, Inr (Some rendered_template)) \<Rightarrow>
             (case write_output lib w fs (output_file a) rendered_template (output_format a) of
                (tr4, fs') \<Rightarrow> (tr2 @ tr3 @ tr4, fs', Exit 0)))"

definition main :: "'v libs \<Rightarrow> world \<Rightarrow> files \<Rightarrow> args \<Rightarrow> event list \<times> files \<times> ending" where
  "main lib w fs a =
     (if \<not> isdir w (source_dir a) then
        ([Log ERROR (''Source directory '' @ source_dir a @ '' does not exist.'')], fs, Exit 1)
      else if \<not> isfile w (template_file a) then
        ([Log ERROR (''Template file '' @ template_file a @ '' does not exist.'')], fs, Exit 1)
      else
        (case analyze_directory_permissions lib w (source_dir a) (exclude_patterns a) of
           (tr1, Inl e) \<Rightarrow> (tr1, fs, Uncaught e)
         | (tr1, Inr permissions_data) \<Rightarrow>
             (case render_and_write lib w fs a permissions_data of
                (tr, fs', how) \<Rightarrow> (tr1 @ tr, fs', how))))"

section \<open>The pattern matcher\<close>

text \<open>
  Modelled from the spec: the pattern matcher (\<open>PathSpec\<close> of the \<open>pathspec\<close> library,
  which the program imports and whose code is not part of the program). Section 4.1 of
  the specification: patterns follow gitignore syntax, with \<open>*\<close> and \<open>?\<close> wildcards
  within a path segment, \<open>**\<close> matching across segments, a leading \<open>/\<close> anchoring to the
  root, a leading \<open>!\<close> negating a prior match and a trailing \<open>/\<close> restricting to
  directories; later patterns override earlier ones; the empty list matches nothing;
  matching is against the path relative to the scan root, separated by \<open>/\<close>. As in
  gitignore, a separator inside a pattern anchors it as well.
\<close>

fun glob_match :: "string \<Rightarrow> string \<Rightarrow> bool" where
  "glob_match [] [] = True"
| "glob_match [] (c # cs) = False"
| "glob_match (p # ps) [] = (p = CHR ''*'' \<and> glob_match ps [])"
| "glob_match (p # ps) (c # cs) =
     (if p = CHR ''*'' then glob_match ps (c # cs) \<or> glob_match (p # ps) cs
      else (p = CHR ''?'' \<or> p = c) \<and> glob_match ps cs)"

fun segs_match :: "string list \<Rightarrow> string list \<Rightarrow> bool" where
  "segs_match [] [] = True"
| "segs_match [] (c # cs) = False"
| "segs_match (p # ps) [] = (p = ''**'' \<and> segs_match ps [])"
| "segs_match (p # ps) (c # cs) =
     (if p = ''**'' then segs_match ps (c # cs) \<or> segs_match (p # ps) cs
      else glob_match p c \<and> segs_match ps cs)"

record pattern =
  negated :: bool
  anchored :: bool
  dir_only :: bool
  segments :: "string list"

definition parse_pattern :: "string \<Rightarrow> pattern" where
  "parse_pattern line =
     (let neg = (line \<noteq> [] \<and> hd line = CHR ''!'');
          p1 = (if neg then tl line else line);
          lead = startswith_sep p1;
          p2 = (if lead then tl p1 else p1);
          dir = endswith_sep p2;
          p3 = (if dir then butlast p2 else p2);
          segs = split_sep p3
      in \<lparr> negated = neg, anchored = (lead \<or> 1 < length segs), dir_only = dir,
           segments = segs \<rparr>)"

text \<open>
  A pattern matches a path when it matches the path itself or one of the directories
  above it; a directory-only pattern matches only through a directory above the file.
\<close>

definition pattern_matches :: "pattern \<Rightarrow> string \<Rightarrow> bool" where
  "pattern_matches pat path =
     (let comps = split_sep path;
          segs = (if anchored pat then segments pat else ''**'' # segments pat)
      in list_ex (\<lambda>k. (k < length comps \<or> \<not> dir_only pat) \<and> segs_match segs (take k comps))
           [1..<Suc (length comps)])"

fun last_match :: "pattern list \<Rightarrow> string \<Rightarrow> bool \<Rightarrow> bool" where
  "last_match [] path matched = matched"
| "last_match (pat # pats) path matched =
     last_match pats path (if pattern_matches pat path then \<not> negated pat else matched)"

definition gitignore_match_file :: "string list \<Rightarrow> pathspec" where
  "gitignore_match_file lines path = last_match (map parse_pattern lines) path False"

text \<open>
  \<open>PathSpec.from_lines(pattern_factory, lines)\<close>: a factory given by name is looked up
  among the registered pattern factories, and a name that is not registered raises
  \<open>KeyError\<close> with that name. The library registers the gitignore patterns under the names
  \<open>gitwildmatch\<close> and \<open>gitignore\<close>.
\<close>

definition registered_patterns :: "string list" where
  "registered_patterns = [''gitwildmatch'', ''gitignore'']"

definition gitignore_from_lines :: "string \<Rightarrow> string list \<Rightarrow> exn + pathspec" where
  "gitignore_from_lines pattern_factory lines =
     (if pattern_factory \<in> set registered_patterns then Inr (gitignore_match_file lines)
      else Inl (KeyError pattern_factory))"

section \<open>The JSON library\<close>

text \<open>
  The \<open>json\<close> module of the standard library is not part of the program. Its parser
  and its serializer are described here for the values without floating-point numbers:
  \<open>None\<close>, the booleans, the integers, strings, lists, and dictionaries with string keys.
  A dictionary is the list of its items in insertion order, which is the order in which
  Python iterates over it; a character is a code point below 256.
\<close>

datatype pyval = PNone | PBool bool | PInt int | PStr string | PList "pyval list"
  | PDict "(string \<times> pyval) list"





























section \<open>Example inputs\<close>

text \<open>
  A tree \<open>/data\<close> with the files \<open>a.log\<close>, \<open>important.log\<close> and \<open>b.txt\<close> (mode 644), a
  set-uid program \<open>tool\<close> (mode 4755) that the walk does not list, and a file \<open>gone\<close>
  whose stat fails.
\<close>

definition example_stat :: "string \<Rightarrow> string + stat_result" where
  "example_stat p =
     (if p = ''/data/a.log'' then Inr \<lparr>st_mode = 33188, st_uid = 1000, st_gid = 100, st_size = 12\<rparr>
      else if p = ''/data/important.log''
        then Inr \<lparr>st_mode = 33188, st_uid = 1000, st_gid = 100, st_size = 7\<rparr>
      else if p = ''/data/b.txt'' then Inr \<lparr>st_mode = 33188, st_uid = 1000, st_gid = 100, st_size = 0\<rparr>
      else if p = ''/data/tool'' then Inr \<lparr>st_mode = 35309, st_uid = 0, st_gid = 0, st_size = 4096\<rparr>
      else Inl ''[Errno 2] No such file or directory'')"

definition example_world :: world where
  "example_world =
     \<lparr> getcwd = Inr ''/home/user'',
       isdir = (\<lambda>p. p = ''/data''),
       isfile = (\<lambda>p. p = ''/tpl/report.j2'' \<or> p = ''/tpl/plain.j2'' \<or> p = ''/tpl/bad.j2''),
       walk = (\<lambda>top. if top = ''/data''
                 then [(''/data'', [], [''a.log'', ''important.log'', ''b.txt''])] else []),
       os_stat = example_stat,
       open_w = (\<lambda>p. None),
       write_limit = (\<lambda>p. None) \<rparr>"

text \<open>The same tree when the walk lists \<open>gone\<close> and \<open>b.txt\<close>.\<close>

definition unreadable_world :: world where
  "unreadable_world =
     example_world \<lparr> walk := (\<lambda>top. [(''/data'', [], [''gone'', ''b.txt''])]) \<rparr>"

text \<open>The same tree when \<open>a.log\<close> cannot be read.\<close>

definition locked_world :: world where
  "locked_world =
     example_world \<lparr> os_stat := (\<lambda>p. if p = ''/data/a.log''
        then Inl ''[Errno 13] Permission denied'' else example_stat p) \<rparr>"



text \<open>
  Parsed data for the examples, and libraries that know three templates: \<open>report.j2\<close>
  renders to the JSON text \<open>[2]\<close>, \<open>plain.j2\<close> to text that is not JSON, and \<open>bad.j2\<close>
  fails to render. The pattern matcher is the one modelled above.
\<close>

definition example_libs :: "pyval libs" where
  "example_libs =
     \<lparr> from_lines = gitignore_from_lines,
       jinja_render = (\<lambda>template data.
          if template = ''/tpl/report.j2'' then Inr ''[2]''
          else if template = ''/tpl/plain.j2'' then Inr ''two files''
          else Inl (TemplateError ''unexpected end of template'')),
       json_loads = (\<lambda>text.
          if text = ''[2]'' \<or> text = [CHR ''['', CHR 0x0A] @ ''    2'' @ [CHR 0x0A, CHR '']'']
          then Inr (PList [PInt 2])
          else Inl (JSONDecodeError ''Expecting value: line 1 column 1 (char 0)'')),
       json_dump = (\<lambda>v indent.
          if v = PList [PInt 2] \<and> indent = 4
          then ([CHR ''['', CHR 0x0A] @ ''    2'' @ [CHR 0x0A, CHR '']''], None)
          else ([], Some (OtherException ''not serializable''))),
       yaml_installed = False,
       yaml_safe_load = (\<lambda>text. Inl (YAMLError ''mapping values are not allowed here'')),
       yaml_dump = (\<lambda>v indent. ([], Some (OtherException ''not serializable''))) \<rparr>"





definition example_args :: args where
  "example_args =
     \<lparr> source_dir = ''/data'', output_file = ''/out/report.json'',
       template_file = ''/tpl/report.j2'',
       exclude_patterns = [''*.log'', ''!important.log''], output_format = ''json'' \<rparr>"

section \<open>Properties of the permission bits\<close>

lemma py_bool_and_pow: "py_bool ((m::int) AND 2 ^ k) = bit m k"
  unfolding py_bool_def by (simp add: and_exp_eq_0_iff_not_bit)

lemma py_bool_bits:
  "py_bool (m AND 256) = bit m 8" "py_bool (m AND 128) = bit m 7" "py_bool (m AND 64) = bit m 6"
  "py_bool (m AND 32) = bit m 5" "py_bool (m AND 16) = bit m 4" "py_bool (m AND 8) = bit m 3"
  "py_bool (m AND 4) = bit m 2" "py_bool (m AND 2) = bit m 1" "py_bool (m AND 1) = bit m 0"
  using py_bool_and_pow [of m 8] py_bool_and_pow [of m 7] py_bool_and_pow [of m 6]
    py_bool_and_pow [of m 5] py_bool_and_pow [of m 4] py_bool_and_pow [of m 3]
    py_bool_and_pow [of m 2] py_bool_and_pow [of m 1] py_bool_and_pow [of m 0]
  by simp_all

lemma mod_512_bits: "(m::int) mod 512 = (\<Sum>k = 0..<9. push_bit k (of_bool (bit m k)))"
proof -
  have "m mod 512 = take_bit 9 m"
    by (simp add: take_bit_eq_mod)
  then show ?thesis
    by (simp only: take_bit_sum)
qed

lemma upt_9: "{0..<9::nat} = {0, 1, 2, 3, 4, 5, 6, 7, 8}"
  by auto

text \<open>
  C2. For every mode word, re-encoding the nine booleans of the permission matrix at the
  POSIX bit positions gives the lower nine bits of the mode, that is the mode modulo 512.
\<close>

theorem permission_matrix_roundtrip:
  "encode_matrix (permissions_of stat_info) = st_mode stat_info mod 512"
  unfolding mod_512_bits upt_9
  by (simp add: encode_matrix_def encode_rwx_def permissions_of_def stat_consts py_bool_bits)

section \<open>Properties of the mode string\<close>

lemma and_eq_mask_iff: "((m::int) AND b = b) = (\<forall>n. bit b n \<longrightarrow> bit m n)"
  by (auto simp: bit_eq_iff bit_and_iff)

lemma and_pow_eq_iff: "((m::int) AND 2 ^ k = 2 ^ k) = bit m k"
  by (simp add: and_eq_mask_iff bit_exp_iff)

lemma and_two_pow_eq_iff:
  "((m::int) AND (2 ^ i OR 2 ^ j) = (2 ^ i OR 2 ^ j)) = (bit m i \<and> bit m j)"
  by (auto simp: and_eq_mask_iff bit_or_iff bit_exp_iff)

lemma and_pow_eq_0_iff: "((m::int) AND 2 ^ k = 0) = (\<not> bit m k)"
  by (simp add: and_exp_eq_0_iff_not_bit)

lemma mask_bits:
  "((m::int) AND 256 = 256) = bit m 8" "(m AND 128 = 128) = bit m 7" "(m AND 64 = 64) = bit m 6"
  "(m AND 32 = 32) = bit m 5" "(m AND 16 = 16) = bit m 4" "(m AND 8 = 8) = bit m 3"
  "(m AND 4 = 4) = bit m 2" "(m AND 2 = 2) = bit m 1" "(m AND 1 = 1) = bit m 0"
  "(m AND 2048 = 2048) = bit m 11" "(m AND 1024 = 1024) = bit m 10" "(m AND 512 = 512) = bit m 9"
  "(m AND 2048 = 0) = (\<not> bit m 11)" "(m AND 1024 = 0) = (\<not> bit m 10)"
  "(m AND 512 = 0) = (\<not> bit m 9)"
  "(m AND 2112 = 2112) = (bit m 6 \<and> bit m 11)"
  "(m AND 1032 = 1032) = (bit m 3 \<and> bit m 10)"
  "(m AND 513 = 513) = (bit m 0 \<and> bit m 9)"
  using and_pow_eq_iff [of m 8] and_pow_eq_iff [of m 7] and_pow_eq_iff [of m 6]
    and_pow_eq_iff [of m 5] and_pow_eq_iff [of m 4] and_pow_eq_iff [of m 3]
    and_pow_eq_iff [of m 2] and_pow_eq_iff [of m 1] and_pow_eq_iff [of m 0]
    and_pow_eq_iff [of m 11] and_pow_eq_iff [of m 10] and_pow_eq_iff [of m 9]
    and_pow_eq_0_iff [of m 11] and_pow_eq_0_iff [of m 10] and_pow_eq_0_iff [of m 9]
    and_two_pow_eq_iff [of m 6 11] and_two_pow_eq_iff [of m 3 10] and_two_pow_eq_iff [of m 0 9]
  by simp_all

lemma filemode_length: "length (filemode m) = 10"
  by (simp add: filemode_def filemode_table_def)

lemma filemode_regular: "S_IFMT m = S_IFREG \<Longrightarrow> filemode m ! 0 = CHR ''-''"
  by (simp add: filemode_def filetype_def)

lemma filemode_directory: "S_IFMT m = S_IFDIR \<Longrightarrow> filemode m ! 0 = CHR ''d''"
  by (simp add: filemode_def filetype_def stat_consts)

lemma filemode_read_write:
  "filemode m ! 1 = (if py_bool (m AND S_IRUSR) then CHR ''r'' else CHR ''-'')"
  "filemode m ! 2 = (if py_bool (m AND S_IWUSR) then CHR ''w'' else CHR ''-'')"
  "filemode m ! 4 = (if py_bool (m AND S_IRGRP) then CHR ''r'' else CHR ''-'')"
  "filemode m ! 5 = (if py_bool (m AND S_IWGRP) then CHR ''w'' else CHR ''-'')"
  "filemode m ! 7 = (if py_bool (m AND S_IROTH) then CHR ''r'' else CHR ''-'')"
  "filemode m ! 8 = (if py_bool (m AND S_IWOTH) then CHR ''w'' else CHR ''-'')"
  by (simp_all add: filemode_def filemode_table_def stat_consts mask_bits py_bool_bits)

lemma filemode_execute:
  "filemode m ! 3 =
     (if m AND S_ISUID = 0 then (if py_bool (m AND S_IXUSR) then CHR ''x'' else CHR ''-'')
      else (if py_bool (m AND S_IXUSR) then CHR ''s'' else CHR ''S''))"
  "filemode m ! 6 =
     (if m AND S_ISGID = 0 then (if py_bool (m AND S_IXGRP) then CHR ''x'' else CHR ''-'')
      else (if py_bool (m AND S_IXGRP) then CHR ''s'' else CHR ''S''))"
  "filemode m ! 9 =
     (if m AND S_ISVTX = 0 then (if py_bool (m AND S_IXOTH) then CHR ''x'' else CHR ''-'')
      else (if py_bool (m AND S_IXOTH) then CHR ''t'' else CHR ''T''))"
  by (simp_all add: filemode_def filemode_table_def stat_consts mask_bits py_bool_bits)

text \<open>
  C3, as amended. For every file whose metadata is read, the mode string has ten
  characters; the first is \<open>-\<close> for a regular file and \<open>d\<close> for a directory; the read and
  write positions show \<open>r\<close> and \<open>w\<close> when the bit is set and \<open>-\<close> when it is clear, in
  owner, group, other order; an execute position shows \<open>x\<close> or \<open>-\<close> when the set-uid,
  set-gid or sticky bit of its role is clear, and \<open>s\<close> or \<open>S\<close> (owner, group), \<open>t\<close> or
  \<open>T\<close> (other) when it is set, lower case when the execute bit is set.
\<close>

theorem mode_string_format:
  assumes "get_file_permissions w path = (tr, Some perms)"
  shows "\<exists>st. os_stat w path = Inr st \<and> perms = permissions_of st \<and>
     length (mode perms) = 10 \<and>
     (S_IFMT (st_mode st) = S_IFREG \<longrightarrow> mode perms ! 0 = CHR ''-'') \<and>
     (S_IFMT (st_mode st) = S_IFDIR \<longrightarrow> mode perms ! 0 = CHR ''d'') \<and>
     mode perms ! 1 = (if read_perm (user perms) then CHR ''r'' else CHR ''-'') \<and>
     mode perms ! 2 = (if write_perm (user perms) then CHR ''w'' else CHR ''-'') \<and>
     mode perms ! 3 =
       (if st_mode st AND S_ISUID = 0 then (if execute_perm (user perms) then CHR ''x'' else CHR ''-'')
        else (if execute_perm (user perms) then CHR ''s'' else CHR ''S'')) \<and>
     mode perms ! 4 = (if read_perm (group perms) then CHR ''r'' else CHR ''-'') \<and>
     mode perms ! 5 = (if write_perm (group perms) then CHR ''w'' else CHR ''-'') \<and>
     mode perms ! 6 =
       (if st_mode st AND S_ISGID = 0 then (if execute_perm (group perms) then CHR ''x'' else CHR ''-'')
        else (if execute_perm (group perms) then CHR ''s'' else CHR ''S'')) \<and>
     mode perms ! 7 = (if read_perm (other perms) then CHR ''r'' else CHR ''-'') \<and>
     mode perms ! 8 = (if write_perm (other perms) then CHR ''w'' else CHR ''-'') \<and>
     mode perms ! 9 =
       (if st_mode st AND S_ISVTX = 0 then (if execute_perm (other perms) then CHR ''x'' else CHR ''-'')
        else (if execute_perm (other perms) then CHR ''t'' else CHR ''T''))"
proof -
  from assms obtain st where st: "os_stat w path = Inr st" and p: "perms = permissions_of st"
    by (auto simp: get_file_permissions_def split: sum.splits)
  have m: "mode perms = filemode (st_mode st)"
    and u: "user perms = \<lparr>read_perm = py_bool (st_mode st AND S_IRUSR),
              write_perm = py_bool (st_mode st AND S_IWUSR),
              execute_perm = py_bool (st_mode st AND S_IXUSR)\<rparr>"
    and g: "group perms = \<lparr>read_perm = py_bool (st_mode st AND S_IRGRP),
              write_perm = py_bool (st_mode st AND S_IWGRP),
              execute_perm = py_bool (st_mode st AND S_IXGRP)\<rparr>"
    and o: "other perms = \<lparr>read_perm = py_bool (st_mode st AND S_IROTH),
              write_perm = py_bool (st_mode st AND S_IWOTH),
              execute_perm = py_bool (st_mode st AND S_IXOTH)\<rparr>"
    by (simp_all add: p permissions_of_def)
  show ?thesis
    apply (rule exI [of _ st])
    apply (simp only: m u g o rwx.simps filemode_length filemode_read_write filemode_execute)
    using st p filemode_regular filemode_directory by simp
qed

theorem mode_string_format_witness:
  "get_file_permissions example_world ''/data/tool''
     = ([Stat ''/data/tool''], Some (permissions_of \<lparr>st_mode = 35309, st_uid = 0, st_gid = 0, st_size = 4096\<rparr>))
   \<and> mode (permissions_of \<lparr>st_mode = 35309, st_uid = 0, st_gid = 0, st_size = 4096\<rparr>) ! 3 = CHR ''s''"
proof -
  have g: "get_file_permissions example_world ''/data/tool''
     = ([Stat ''/data/tool''], Some (permissions_of \<lparr>st_mode = 35309, st_uid = 0, st_gid = 0, st_size = 4096\<rparr>))"
    by (simp add: get_file_permissions_def example_world_def example_stat_def)
  have s: "os_stat example_world ''/data/tool'' = Inr \<lparr>st_mode = 35309, st_uid = 0, st_gid = 0, st_size = 4096\<rparr>"
    by (simp add: example_world_def example_stat_def)
  from mode_string_format [OF g] s show ?thesis
    using g by (simp add: permissions_of_def stat_consts py_bool_def)
qed

text \<open>
  C3, as stated, fails on a set-uid file: the owner may execute \<open>/data/tool\<close> (mode
  4755), and the fourth character of its mode string is \<open>s\<close>, not \<open>x\<close>.
\<close>

theorem mode_string_setuid_counterexample:
  "map_option (execute_perm \<circ> user) (snd (get_file_permissions example_world ''/data/tool'')) = Some True
   \<and> map_option mode (snd (get_file_permissions example_world ''/data/tool'')) = Some ''-rwsr-xr-x''
   \<and> ''-rwsr-xr-x'' ! 3 \<noteq> CHR ''x''"
  by (simp add: get_file_permissions_def example_world_def example_stat_def permissions_of_def
      stat_consts py_bool_def filemode_def filemode_table_def filetype_def S_IFMT_def)

section \<open>Properties of the scan\<close>

lemma example_relpath:
  "relpath (Inr ''/home/user'') ''/data/gone'' ''/data'' = Inr ''gone''"
  "relpath (Inr ''/home/user'') ''/data/b.txt'' ''/data'' = Inr ''b.txt''"
  "relpath (Inr ''/home/user'') ''/data/a.log'' ''/data'' = Inr ''a.log''"
  "relpath (Inr ''/home/user'') ''/data/important.log'' ''/data'' = Inr ''important.log''"
  by (simp_all add: relpath_def abspath_def startswith_sep_def normpath_def initial_slashes_of_def)

lemma example_join:
  "join ''/data'' ''gone'' = ''/data/gone''"
  "join ''/data'' ''b.txt'' = ''/data/b.txt''"
  "join ''/data'' ''a.log'' = ''/data/a.log''"
  "join ''/data'' ''important.log'' = ''/data/important.log''"
  by (simp_all add: join_def startswith_sep_def endswith_sep_def)

lemma example_matches:
  "gitignore_match_file [''*.log'', ''!important.log''] ''a.log''"
  "\<not> gitignore_match_file [''*.log'', ''!important.log''] ''important.log''"
  "\<not> gitignore_match_file [''*.log'', ''!important.log''] ''b.txt''"
  by code_simp+

lemma example_cwd:
  "getcwd example_world = Inr ''/home/user''"
  "getcwd unreadable_world = Inr ''/home/user''"
  "getcwd locked_world = Inr ''/home/user''"
  by (simp_all add: example_world_def unreadable_world_def locked_world_def)

text \<open>
  The loop on the example tree, given the matcher of the patterns \<open>*.log\<close> and
  \<open>!important.log\<close>.
\<close>

lemma example_loop:
  "scan_walk (gitignore_match_file [''*.log'', ''!important.log'']) example_world ''/data''
     (walk example_world ''/data'') ([], [])
   = ([Log DEBUG ''Excluding file: /data/a.log'', Stat ''/data/important.log'', Stat ''/data/b.txt''],
      Inr [\<lparr>file_path = ''important.log'',
             permissions = permissions_of \<lparr>st_mode = 33188, st_uid = 1000, st_gid = 100, st_size = 7\<rparr>\<rparr>,
           \<lparr>file_path = ''b.txt'',
             permissions = permissions_of \<lparr>st_mode = 33188, st_uid = 1000, st_gid = 100, st_size = 0\<rparr>\<rparr>])"
proof -
  have w: "walk example_world ''/data'' = [(''/data'', [], [''a.log'', ''important.log'', ''b.txt''])]"
    and s: "os_stat example_world ''/data/important.log''
        = Inr \<lparr>st_mode = 33188, st_uid = 1000, st_gid = 100, st_size = 7\<rparr>"
      "os_stat example_world ''/data/b.txt''
        = Inr \<lparr>st_mode = 33188, st_uid = 1000, st_gid = 100, st_size = 0\<rparr>"
    by (simp_all add: example_world_def example_stat_def)
  show ?thesis
    by (simp add: w s example_cwd example_join example_relpath example_matches Let_def
        get_file_permissions_def)
qed

text \<open>The scan raises whatever exception other than \<open>OSError\<close> the pattern library raises.\<close>

lemma scan_raises:
  assumes "from_lines lib ''gitwildcard'' pats = Inl (KeyError k)"
  shows "analyze_directory_permissions lib w src pats = ([], Inl (KeyError k))"
  using assms by (simp add: analyze_directory_permissions_def scan_body_def)

lemma example_from_lines:
  "from_lines example_libs ''gitwildcard'' pats = Inl (KeyError ''gitwildcard'')"
  "from_lines example_libs ''gitwildmatch'' pats = Inr (gitignore_match_file pats)"
  by (simp_all add: example_libs_def gitignore_from_lines_def registered_patterns_def)

lemma example_scan_raises:
  "analyze_directory_permissions example_libs w src pats = ([], Inl (KeyError ''gitwildcard''))"
  by (rule scan_raises) (rule example_from_lines)

lemma example_main_raises:
  assumes "isdir w (source_dir a)" and "isfile w (template_file a)"
  shows "main example_libs w fs a = ([], fs, Uncaught (KeyError ''gitwildcard''))"
  using assms by (simp add: main_def example_scan_raises)

subsection \<open>No metadata read of an excluded file\<close>

lemma scan_files_stat:
  "Stat p \<in> set (fst (scan_files spec w src root fs (tr, acc))) \<Longrightarrow>
   Stat p \<in> set tr \<or> (\<exists>rel. relpath (getcwd w) p src = Inr rel \<and> \<not> spec rel)"
proof (induction fs arbitrary: tr acc)
  case Nil
  then show ?case by simp
next
  case (Cons f rest)
  show ?case
  proof (cases "relpath (getcwd w) (join root f) src")
    case (Inl e)
    with Cons.prems show ?thesis by (simp add: Let_def)
  next
    case (Inr rel)
    show ?thesis
    proof (cases "spec rel")
      case True
      with Inr Cons.prems
      have "Stat p \<in> set (fst (scan_files spec w src root rest
          (tr @ [Log DEBUG (''Excluding file: '' @ join root f)], acc)))"
        by (simp add: Let_def)
      from Cons.IH [OF this] show ?thesis by simp
    next
      case False
      obtain tr' r where g: "get_file_permissions w (join root f) = (tr', r)"
        by (cases "get_file_permissions w (join root f)") auto
      then have tr': "Stat q \<in> set tr' \<Longrightarrow> q = join root f" for q
        by (auto simp: get_file_permissions_def split: sum.splits)
      obtain acc' where "Stat p \<in> set (fst (scan_files spec w src root rest (tr @ tr', acc')))"
        using Cons.prems Inr False g by (cases r) (auto simp: Let_def)
      from Cons.IH [OF this] have "Stat p \<in> set tr \<or> Stat p \<in> set tr'
          \<or> (\<exists>rel. relpath (getcwd w) p src = Inr rel \<and> \<not> spec rel)"
        by auto
      with tr' Inr False show ?thesis by blast
    qed
  qed
qed

lemma scan_walk_stat:
  "Stat p \<in> set (fst (scan_walk spec w src items (tr, acc))) \<Longrightarrow>
   Stat p \<in> set tr \<or> (\<exists>rel. relpath (getcwd w) p src = Inr rel \<and> \<not> spec rel)"
proof (induction items arbitrary: tr acc)
  case Nil
  then show ?case by simp
next
  case (Cons item items)
  obtain root dirs fs where t: "item = (root, dirs, fs)"
    by (cases item) auto
  obtain tr' r where inner: "scan_files spec w src root fs (tr, acc) = (tr', r)"
    by (cases "scan_files spec w src root fs (tr, acc)") auto
  have tr': "Stat p \<in> set tr' \<Longrightarrow>
      Stat p \<in> set tr \<or> (\<exists>rel. relpath (getcwd w) p src = Inr rel \<and> \<not> spec rel)"
    using scan_files_stat [of p spec w src root fs tr acc] inner by simp
  show ?case
  proof (cases r)
    case (Inl e)
    with Cons.prems t inner tr' show ?thesis by simp
  next
    case (Inr acc')
    with Cons.prems t inner
    have "Stat p \<in> set (fst (scan_walk spec w src items (tr', acc')))"
      by simp
    from Cons.IH [OF this] tr' show ?thesis by blast
  qed
qed

lemma scan_files_agree:
  assumes "getcwd w' = getcwd w"
    and "\<forall>p rel. relpath (getcwd w) p src = Inr rel \<and> \<not> spec rel \<longrightarrow> os_stat w' p = os_stat w p"
  shows "scan_files spec w' src root fs (tr, acc) = scan_files spec w src root fs (tr, acc)"
proof (induction fs arbitrary: tr acc)
  case Nil
  show ?case by simp
next
  case (Cons f rest)
  show ?case
  proof (cases "relpath (getcwd w) (join root f) src")
    case (Inl e)
    then show ?thesis by (simp add: Let_def assms(1))
  next
    case (Inr rel)
    show ?thesis
    proof (cases "spec rel")
      case True
      with Inr Cons.IH show ?thesis by (simp add: Let_def assms(1))
    next
      case False
      with Inr assms(2) have "os_stat w' (join root f) = os_stat w (join root f)"
        by blast
      then have "get_file_permissions w' (join root f) = get_file_permissions w (join root f)"
        by (simp add: get_file_permissions_def)
      with Inr False Cons.IH show ?thesis
        by (simp add: Let_def assms(1) split: prod.splits option.splits)
    qed
  qed
qed

lemma scan_walk_agree:
  assumes "getcwd w' = getcwd w"
    and "\<forall>p rel. relpath (getcwd w) p src = Inr rel \<and> \<not> spec rel \<longrightarrow> os_stat w' p = os_stat w p"
  shows "scan_walk spec w' src items (tr, acc) = scan_walk spec w src items (tr, acc)"
proof (induction items arbitrary: tr acc)
  case Nil
  show ?case by simp
next
  case (Cons item items)
  obtain root dirs fs where t: "item = (root, dirs, fs)"
    by (cases item) auto
  show ?case
    using Cons.IH by (simp add: t scan_files_agree [OF assms] split: prod.splits sum.splits)
qed

text \<open>The scan reads nothing before the patterns are compiled.\<close>

lemma analyze_stat:
  assumes "Stat p \<in> set (fst (analyze_directory_permissions lib w src pats))"
  shows "\<exists>compiled rel. from_lines lib ''gitwildcard'' pats = Inr compiled
           \<and> relpath (getcwd w) p src = Inr rel \<and> \<not> compiled rel"
proof (cases "from_lines lib ''gitwildcard'' pats")
  case (Inl e)
  with assms show ?thesis
    by (cases e) (simp_all add: analyze_directory_permissions_def scan_body_def)
next
  case (Inr compiled)
  obtain tr r where b: "scan_walk compiled w src (walk w src) ([], []) = (tr, r)"
    by (cases "scan_walk compiled w src (walk w src) ([], [])") auto
  from assms b Inr have "Stat p \<in> set tr"
    by (auto simp: analyze_directory_permissions_def scan_body_def split: sum.splits exn.splits)
  with b scan_walk_stat [of p compiled w src "walk w src" "[]" "[]"]
  have "\<exists>rel. relpath (getcwd w) p src = Inr rel \<and> \<not> compiled rel"
    by simp
  with Inr show ?thesis by blast
qed

lemma analyze_agree:
  assumes "walk w' = walk w" and "getcwd w' = getcwd w"
    and "\<forall>compiled p rel. from_lines lib ''gitwildcard'' pats = Inr compiled
           \<and> relpath (getcwd w) p src = Inr rel \<and> \<not> compiled rel \<longrightarrow> os_stat w' p = os_stat w p"
  shows "analyze_directory_permissions lib w' src pats = analyze_directory_permissions lib w src pats"
proof (cases "from_lines lib ''gitwildcard'' pats")
  case (Inl e)
  then show ?thesis
    by (simp add: analyze_directory_permissions_def scan_body_def)
next
  case (Inr compiled)
  with assms(3)
  have "\<forall>p rel. relpath (getcwd w) p src = Inr rel \<and> \<not> compiled rel \<longrightarrow> os_stat w' p = os_stat w p"
    by blast
  from scan_walk_agree [OF assms(2) this, of "walk w src" "[]" "[]"]
  show ?thesis
    by (simp add: analyze_directory_permissions_def scan_body_def Inr assms(1))
qed

text \<open>
  C8. Every metadata read of the loop of the scan is on a path whose relative path the
  compiled patterns do not match: no excluded file is ever read. Hence two file systems
  with the same walk and working directory that agree on the metadata of the files that
  are not excluded give the same loop, trace and result. The same holds of the scan as a
  whole, whatever the pattern library returns for the patterns: a read happens only after
  the patterns were compiled, on a path they do not match, and the scan is the same on two
  such file systems.
\<close>

theorem exclusion_short_circuits:
  "(\<forall>p. Stat p \<in> set (fst (scan_walk spec w src (walk w src) ([], []))) \<longrightarrow>
      (\<exists>rel. relpath (getcwd w) p src = Inr rel \<and> \<not> spec rel)) \<and>
   (\<forall>w'. walk w' = walk w \<and> getcwd w' = getcwd w \<and>
      (\<forall>p rel. relpath (getcwd w) p src = Inr rel \<and> \<not> spec rel \<longrightarrow> os_stat w' p = os_stat w p)
      \<longrightarrow> scan_walk spec w' src (walk w' src) ([], []) = scan_walk spec w src (walk w src) ([], [])) \<and>
   (\<forall>p. Stat p \<in> set (fst (analyze_directory_permissions lib w src pats)) \<longrightarrow>
      (\<exists>compiled rel. from_lines lib ''gitwildcard'' pats = Inr compiled
         \<and> relpath (getcwd w) p src = Inr rel \<and> \<not> compiled rel)) \<and>
   (\<forall>w'. walk w' = walk w \<and> getcwd w' = getcwd w \<and>
      (\<forall>compiled p rel. from_lines lib ''gitwildcard'' pats = Inr compiled
         \<and> relpath (getcwd w) p src = Inr rel \<and> \<not> compiled rel \<longrightarrow> os_stat w' p = os_stat w p)
      \<longrightarrow> analyze_directory_permissions lib w' src pats
            = analyze_directory_permissions lib w src pats)"
proof (intro conjI allI impI)
  show "\<exists>rel. relpath (getcwd w) p src = Inr rel \<and> \<not> spec rel"
    if "Stat p \<in> set (fst (scan_walk spec w src (walk w src) ([], [])))" for p
    using scan_walk_stat [OF that] by simp
  show "scan_walk spec w' src (walk w' src) ([], []) = scan_walk spec w src (walk w src) ([], [])"
    if "walk w' = walk w \<and> getcwd w' = getcwd w \<and>
      (\<forall>p rel. relpath (getcwd w) p src = Inr rel \<and> \<not> spec rel \<longrightarrow> os_stat w' p = os_stat w p)"
    for w' :: world
    using that scan_walk_agree [of w' w src spec "walk w src" "[]" "[]"] by simp
  show "\<exists>compiled rel. from_lines lib ''gitwildcard'' pats = Inr compiled
         \<and> relpath (getcwd w) p src = Inr rel \<and> \<not> compiled rel"
    if "Stat p \<in> set (fst (analyze_directory_permissions lib w src pats))" for p
    using that by (rule analyze_stat)
  show "analyze_directory_permissions lib w' src pats
            = analyze_directory_permissions lib w src pats"
    if "walk w' = walk w \<and> getcwd w' = getcwd w \<and>
      (\<forall>compiled p rel. from_lines lib ''gitwildcard'' pats = Inr compiled
         \<and> relpath (getcwd w) p src = Inr rel \<and> \<not> compiled rel \<longrightarrow> os_stat w' p = os_stat w p)"
    for w' :: world
    using that analyze_agree [of w' w lib pats src] by blast
qed

theorem exclusion_short_circuits_witness:
  "Stat ''/data/b.txt''
       \<in> set (fst (scan_walk (gitignore_match_file [''*.log'', ''!important.log'']) example_world
                      ''/data'' (walk example_world ''/data'') ([], [])))
   \<and> \<not> gitignore_match_file [''*.log'', ''!important.log''] ''b.txt''
   \<and> gitignore_match_file [''*.log'', ''!important.log''] ''a.log''
   \<and> Stat ''/data/a.log''
       \<notin> set (fst (scan_walk (gitignore_match_file [''*.log'', ''!important.log'']) example_world
                      ''/data'' (walk example_world ''/data'') ([], [])))
   \<and> os_stat locked_world ''/data/a.log'' \<noteq> os_stat example_world ''/data/a.log''
   \<and> scan_walk (gitignore_match_file [''*.log'', ''!important.log'']) locked_world
         ''/data'' (walk locked_world ''/data'') ([], [])
       = scan_walk (gitignore_match_file [''*.log'', ''!important.log'']) example_world
         ''/data'' (walk example_world ''/data'') ([], [])
   \<and> analyze_directory_permissions example_libs locked_world ''/data'' [''*.log'', ''!important.log'']
       = analyze_directory_permissions example_libs example_world ''/data''
           [''*.log'', ''!important.log'']"
proof -
  let ?pats = "[''*.log'', ''!important.log'']"
  let ?spec = "gitignore_match_file ?pats"
  have cwd: "getcwd locked_world = getcwd example_world"
    and wk: "walk locked_world = walk example_world"
    by (simp_all add: example_world_def locked_world_def)
  have d: "os_stat locked_world ''/data/a.log'' \<noteq> os_stat example_world ''/data/a.log''"
    by (simp add: example_world_def locked_world_def example_stat_def)
  have agree: "\<forall>p rel. relpath (getcwd example_world) p ''/data'' = Inr rel
      \<and> \<not> ?spec rel \<longrightarrow> os_stat locked_world p = os_stat example_world p"
  proof (intro allI impI)
    fix p rel
    assume a: "relpath (getcwd example_world) p ''/data'' = Inr rel \<and> \<not> ?spec rel"
    have "p \<noteq> ''/data/a.log''"
    proof
      assume "p = ''/data/a.log''"
      with a example_cwd(1) example_relpath(3) example_matches(1) show False by simp
    qed
    then show "os_stat locked_world p = os_stat example_world p"
      by (simp add: example_world_def locked_world_def)
  qed
  note t = exclusion_short_circuits [of ?spec example_world "''/data''" example_libs ?pats]
  have b: "Stat ''/data/b.txt''
       \<in> set (fst (scan_walk ?spec example_world ''/data'' (walk example_world ''/data'') ([], [])))"
    by (simp add: example_loop)
  with t have "\<exists>rel. relpath (getcwd example_world) ''/data/b.txt'' ''/data'' = Inr rel \<and> \<not> ?spec rel"
    by blast
  then have nb: "\<not> ?spec ''b.txt''"
    by (simp add: example_cwd example_relpath)
  from t have "Stat ''/data/a.log''
       \<in> set (fst (scan_walk ?spec example_world ''/data'' (walk example_world ''/data'') ([], [])))
     \<Longrightarrow> \<exists>rel. relpath (getcwd example_world) ''/data/a.log'' ''/data'' = Inr rel \<and> \<not> ?spec rel"
    by blast
  then have n: "Stat ''/data/a.log''
       \<notin> set (fst (scan_walk ?spec example_world ''/data'' (walk example_world ''/data'') ([], [])))"
    using example_cwd(1) example_relpath(3) example_matches(1) by auto
  from t wk cwd agree
  have l: "scan_walk ?spec locked_world ''/data'' (walk locked_world ''/data'') ([], [])
       = scan_walk ?spec example_world ''/data'' (walk example_world ''/data'') ([], [])"
    by blast
  from agree have "\<forall>compiled p rel. from_lines example_libs ''gitwildcard'' ?pats = Inr compiled
         \<and> relpath (getcwd example_world) p ''/data'' = Inr rel \<and> \<not> compiled rel
         \<longrightarrow> os_stat locked_world p = os_stat example_world p"
    by (simp add: example_from_lines)
  with t wk cwd
  have s: "analyze_directory_permissions example_libs locked_world ''/data'' ?pats
       = analyze_directory_permissions example_libs example_world ''/data'' ?pats"
    by blast
  from b nb example_matches(1) n d l s show ?thesis by blast
qed

subsection \<open>The name of the pattern factory\<close>

text \<open>
  C1. The scan of the tree that holds \<open>a.log\<close>, \<open>important.log\<close> and \<open>b.txt\<close> under the
  patterns \<open>*.log\<close> and \<open>!important.log\<close> returns no records: the pattern library has no
  factory of the name \<open>gitwildcard\<close> that the program passes, the \<open>KeyError\<close> it raises is
  not an \<open>OSError\<close> and leaves the scan, and a run ends with it. Under the name
  \<open>gitwildmatch\<close> the patterns compile, and with the compiled patterns the loop of the
  scan excludes \<open>a.log\<close> and returns the records of \<open>important.log\<close> and \<open>b.txt\<close>.
\<close>

theorem negation_example_scan_raises:
  "analyze_directory_permissions example_libs example_world ''/data'' [''*.log'', ''!important.log'']
     = ([], Inl (KeyError ''gitwildcard''))
   \<and> main example_libs example_world Map.empty example_args
     = ([], Map.empty, Uncaught (KeyError ''gitwildcard''))
   \<and> from_lines example_libs ''gitwildmatch'' [''*.log'', ''!important.log'']
     = Inr (gitignore_match_file [''*.log'', ''!important.log''])
   \<and> scan_walk (gitignore_match_file [''*.log'', ''!important.log'']) example_world ''/data''
       (walk example_world ''/data'') ([], [])
     = ([Log DEBUG ''Excluding file: /data/a.log'', Stat ''/data/important.log'', Stat ''/data/b.txt''],
        Inr [\<lparr>file_path = ''important.log'',
               permissions = permissions_of \<lparr>st_mode = 33188, st_uid = 1000, st_gid = 100, st_size = 7\<rparr>\<rparr>,
             \<lparr>file_path = ''b.txt'',
               permissions = permissions_of \<lparr>st_mode = 33188, st_uid = 1000, st_gid = 100, st_size = 0\<rparr>\<rparr>])"
proof -
  have "isdir example_world (source_dir example_args)"
    and "isfile example_world (template_file example_args)"
    by (simp_all add: example_world_def example_args_def)
  then have "main example_libs example_world Map.empty example_args
     = ([], Map.empty, Uncaught (KeyError ''gitwildcard''))"
    by (rule example_main_raises)
  with example_scan_raises [of example_world "''/data''" "[''*.log'', ''!important.log'']"]
    example_from_lines(2) [of "[''*.log'', ''!important.log'']"] example_loop
  show ?thesis by simp
qed

text \<open>
  C7. The scan of a tree that lists \<open>gone\<close>, whose metadata cannot be read, and \<open>b.txt\<close>
  returns no records either: it raises the \<open>KeyError\<close> before any file is visited. The
  read of \<open>gone\<close> itself gives no permissions and an error record, and with compiled
  patterns the loop of the scan goes on after it and returns the record of \<open>b.txt\<close>.
\<close>

theorem unreadable_entry_scan_raises:
  "os_stat unreadable_world ''/data/gone'' = Inl ''[Errno 2] No such file or directory''
   \<and> analyze_directory_permissions example_libs unreadable_world ''/data'' []
     = ([], Inl (KeyError ''gitwildcard''))
   \<and> get_file_permissions unreadable_world ''/data/gone''
     = ([Stat ''/data/gone'',
         Log ERROR ''Error getting permissions for /data/gone: [Errno 2] No such file or directory''],
        None)
   \<and> scan_walk (gitignore_match_file []) unreadable_world ''/data''
       (walk unreadable_world ''/data'') ([], [])
     = ([Stat ''/data/gone'',
         Log ERROR ''Error getting permissions for /data/gone: [Errno 2] No such file or directory'',
         Stat ''/data/b.txt''],
        Inr [\<lparr>file_path = ''b.txt'',
               permissions = permissions_of \<lparr>st_mode = 33188, st_uid = 1000, st_gid = 100, st_size = 0\<rparr>\<rparr>])"
proof -
  have w: "walk unreadable_world ''/data'' = [(''/data'', [], [''gone'', ''b.txt''])]"
    and s: "os_stat unreadable_world ''/data/gone'' = Inl ''[Errno 2] No such file or directory''"
      "os_stat unreadable_world ''/data/b.txt''
        = Inr \<lparr>st_mode = 33188, st_uid = 1000, st_gid = 100, st_size = 0\<rparr>"
    by (simp_all add: unreadable_world_def example_world_def example_stat_def)
  have m: "\<not> gitignore_match_file [] path" for path
    by (simp add: gitignore_match_file_def)
  have g: "get_file_permissions unreadable_world ''/data/gone''
     = ([Stat ''/data/gone'',
         Log ERROR ''Error getting permissions for /data/gone: [Errno 2] No such file or directory''],
        None)"
    by (simp add: get_file_permissions_def s)
  have l: "scan_walk (gitignore_match_file []) unreadable_world ''/data''
       (walk unreadable_world ''/data'') ([], [])
     = ([Stat ''/data/gone'',
         Log ERROR ''Error getting permissions for /data/gone: [Errno 2] No such file or directory'',
         Stat ''/data/b.txt''],
        Inr [\<lparr>file_path = ''b.txt'',
               permissions = permissions_of \<lparr>st_mode = 33188, st_uid = 1000, st_gid = 100, st_size = 0\<rparr>\<rparr>])"
    by (simp add: w s m example_cwd example_join example_relpath Let_def get_file_permissions_def)
  from s(1) g l example_scan_raises [of unreadable_world "''/data''" "[]"]
  show ?thesis by simp
qed

text \<open>
  C6. The scan of a directory that does not exist raises the \<open>KeyError\<close> as well: it does
  not return the empty list and logs no error. With compiled patterns the loop of the scan
  has nothing to visit there, and returns the empty list without an error record. A run
  on that directory ends before the scan, with an error record and exit status 1.
\<close>

theorem bad_root_scan_raises:
  "\<not> isdir example_world ''/nowhere''
   \<and> walk example_world ''/nowhere'' = []
   \<and> analyze_directory_permissions example_libs example_world ''/nowhere'' []
     = ([], Inl (KeyError ''gitwildcard''))
   \<and> scan_walk (gitignore_match_file []) example_world ''/nowhere''
       (walk example_world ''/nowhere'') ([], [])
     = ([], Inr [])
   \<and> main example_libs example_world Map.empty (example_args \<lparr>source_dir := ''/nowhere''\<rparr>)
     = ([Log ERROR ''Source directory /nowhere does not exist.''], Map.empty, Exit 1)"
proof -
  have d: "\<not> isdir example_world ''/nowhere''" and w: "walk example_world ''/nowhere'' = []"
    by (simp_all add: example_world_def)
  from d have "main example_libs example_world Map.empty (example_args \<lparr>source_dir := ''/nowhere''\<rparr>)
     = ([Log ERROR ''Source directory /nowhere does not exist.''], Map.empty, Exit 1)"
    by (simp add: main_def)
  with d w example_scan_raises [of example_world "''/nowhere''" "[]"]
  show ?thesis by simp
qed

section \<open>Properties of the output writer\<close>

lemma finish_write_snd: "snd (finish_write out (tr, fs, x)) = fs"
  by (simp add: finish_write_def split: option.splits exn.splits)

lemma finish_write_fst: "\<exists>lv m. fst (finish_write out (tr, fs, x)) = tr @ [Log lv m]"
  by (simp add: finish_write_def split: option.splits exn.splits)

lemma finish_write_error:
  "\<exists>m. finish_write out ([], fs, Some e) = ([Log ERROR m], fs)"
  by (cases e) (simp_all add: finish_write_def)

lemma write_file_trace: "fst (write_file w fs path dumped) = [OpenW path]"
  by (simp add: write_file_def split: option.splits)

lemma finish_write_file_trace:
  "\<exists>lv m. fst (finish_write out (write_file w fs path dumped)) = [OpenW path, Log lv m]"
proof -
  obtain tr fs' x where wf: "write_file w fs path dumped = (tr, fs', x)"
    by (cases "write_file w fs path dumped") auto
  with write_file_trace [of w fs path dumped] have "tr = [OpenW path]" by simp
  with wf finish_write_fst [of out tr fs' x] show ?thesis by simp
qed

lemma write_output_json_failure:
  assumes "json_loads lib data = Inl e"
  shows "\<exists>m. write_output lib w fs out data ''json'' = ([Log ERROR m], fs)"
proof (cases e)
  case (JSONDecodeError m)
  with assms show ?thesis by (simp add: write_output_def)
next
  case (OSError m)
  with assms finish_write_error [of out fs e] show ?thesis by (simp add: write_output_def)
next
  case (TemplateError m)
  with assms finish_write_error [of out fs e] show ?thesis by (simp add: write_output_def)
next
  case (YAMLError m)
  with assms finish_write_error [of out fs e] show ?thesis by (simp add: write_output_def)
next
  case (KeyError m)
  with assms finish_write_error [of out fs e] show ?thesis by (simp add: write_output_def)
next
  case (OtherException m)
  with assms finish_write_error [of out fs e] show ?thesis by (simp add: write_output_def)
qed

lemma write_output_yaml_failure:
  assumes "yaml_installed lib" "yaml_safe_load lib data = Inl e"
  shows "\<exists>m. write_output lib w fs out data ''yaml'' = ([Log ERROR m], fs)"
proof (cases e)
  case (YAMLError m)
  with assms show ?thesis by (simp add: write_output_def)
next
  case (OSError m)
  with assms finish_write_error [of out fs e] show ?thesis by (simp add: write_output_def)
next
  case (TemplateError m)
  with assms finish_write_error [of out fs e] show ?thesis by (simp add: write_output_def)
next
  case (JSONDecodeError m)
  with assms finish_write_error [of out fs e] show ?thesis by (simp add: write_output_def)
next
  case (KeyError m)
  with assms finish_write_error [of out fs e] show ?thesis by (simp add: write_output_def)
next
  case (OtherException m)
  with assms finish_write_error [of out fs e] show ?thesis by (simp add: write_output_def)
qed

lemma write_output_open:
  assumes "OpenW p \<in> set (fst (write_output lib w fs out data fmt))"
  shows "p = out \<and> ((fmt = ''json'' \<and> (\<exists>v. json_loads lib data = Inr v))
      \<or> (fmt = ''yaml'' \<and> yaml_installed lib \<and> (\<exists>v. yaml_safe_load lib data = Inr v)))"
proof -
  consider (j) "fmt = ''json''" | (y) "fmt \<noteq> ''json''" "fmt = ''yaml''"
    | (o) "fmt \<noteq> ''json''" "fmt \<noteq> ''yaml''"
    by blast
  then show ?thesis
  proof cases
    case j
    show ?thesis
    proof (cases "json_loads lib data")
      case (Inl e)
      from write_output_json_failure [OF Inl, of w fs out] assms j show ?thesis by auto
    next
      case (Inr v)
      with assms j finish_write_file_trace [of out w fs out "json_dump lib v 4"]
      show ?thesis by (auto simp: write_output_def)
    qed
  next
    case y
    show ?thesis
    proof (cases "yaml_installed lib")
      case False
      with assms y show ?thesis by (simp add: write_output_def)
    next
      case True
      show ?thesis
      proof (cases "yaml_safe_load lib data")
        case (Inl e)
        from write_output_yaml_failure [OF True Inl, of w fs out] assms y show ?thesis by auto
      next
        case (Inr v)
        with assms y True finish_write_file_trace [of out w fs out "yaml_dump lib v 2"]
        show ?thesis by (auto simp: write_output_def)
      qed
    qed
  next
    case o
    with assms show ?thesis by (simp add: write_output_def)
  qed
qed

lemma write_output_changed:
  assumes "snd (write_output lib w fs out data fmt) \<noteq> fs"
  shows "OpenW out \<in> set (fst (write_output lib w fs out data fmt))"
proof -
  consider (j) "fmt = ''json''" | (y) "fmt \<noteq> ''json''" "fmt = ''yaml''"
    | (o) "fmt \<noteq> ''json''" "fmt \<noteq> ''yaml''"
    by blast
  then show ?thesis
  proof cases
    case j
    show ?thesis
    proof (cases "json_loads lib data")
      case (Inl e)
      from write_output_json_failure [OF Inl, of w fs out] assms j show ?thesis by auto
    next
      case (Inr v)
      with j finish_write_file_trace [of out w fs out "json_dump lib v 4"]
      show ?thesis by (auto simp: write_output_def)
    qed
  next
    case y
    show ?thesis
    proof (cases "yaml_installed lib")
      case False
      with assms y show ?thesis by (simp add: write_output_def)
    next
      case True
      show ?thesis
      proof (cases "yaml_safe_load lib data")
        case (Inl e)
        from write_output_yaml_failure [OF True Inl, of w fs out] assms y show ?thesis by auto
      next
        case (Inr v)
        with y True finish_write_file_trace [of out w fs out "yaml_dump lib v 2"]
        show ?thesis by (auto simp: write_output_def)
      qed
    qed
  next
    case o
    with assms show ?thesis by (simp add: write_output_def)
  qed
qed

text \<open>
  C4. A write is all or nothing with respect to parsing. When the rendered text does not
  parse in the declared format, \<open>write_output\<close> logs one error record and returns with every
  file as it was: the output file is not created, truncated or modified. In every call, a
  file is opened for writing only if it is the output file, the format is \<open>json\<close> or
  \<open>yaml\<close> and the rendered text has parsed in that format; and the files change only in a
  call that opened the output file.
\<close>

theorem write_is_all_or_nothing:
  "(json_loads lib data = Inl e \<longrightarrow>
      (\<exists>m. write_output lib w fs out data ''json'' = ([Log ERROR m], fs))) \<and>
   (json_loads lib data = Inl (JSONDecodeError msg) \<longrightarrow>
      write_output lib w fs out data ''json'' = ([Log ERROR (''Invalid JSON data: '' @ msg)], fs)) \<and>
   (yaml_installed lib \<and> yaml_safe_load lib data = Inl e \<longrightarrow>
      (\<exists>m. write_output lib w fs out data ''yaml'' = ([Log ERROR m], fs))) \<and>
   (yaml_installed lib \<and> yaml_safe_load lib data = Inl (YAMLError msg) \<longrightarrow>
      write_output lib w fs out data ''yaml'' = ([Log ERROR (''Invalid YAML data: '' @ msg)], fs)) \<and>
   (\<forall>p fmt. OpenW p \<in> set (fst (write_output lib w fs out data fmt)) \<longrightarrow>
      p = out \<and> ((fmt = ''json'' \<and> (\<exists>v. json_loads lib data = Inr v))
        \<or> (fmt = ''yaml'' \<and> yaml_installed lib \<and> (\<exists>v. yaml_safe_load lib data = Inr v)))) \<and>
   (\<forall>fmt. snd (write_output lib w fs out data fmt) \<noteq> fs \<longrightarrow>
      OpenW out \<in> set (fst (write_output lib w fs out data fmt)))"
proof (intro conjI allI impI)
  show "\<exists>m. write_output lib w fs out data ''json'' = ([Log ERROR m], fs)"
    if "json_loads lib data = Inl e"
    using that by (rule write_output_json_failure)
  show "write_output lib w fs out data ''json'' = ([Log ERROR (''Invalid JSON data: '' @ msg)], fs)"
    if "json_loads lib data = Inl (JSONDecodeError msg)"
    using that by (simp add: write_output_def)
  show "\<exists>m. write_output lib w fs out data ''yaml'' = ([Log ERROR m], fs)"
    if "yaml_installed lib \<and> yaml_safe_load lib data = Inl e"
    using that write_output_yaml_failure by blast
  show "write_output lib w fs out data ''yaml'' = ([Log ERROR (''Invalid YAML data: '' @ msg)], fs)"
    if "yaml_installed lib \<and> yaml_safe_load lib data = Inl (YAMLError msg)"
    using that by (simp add: write_output_def)
  show "p = out" if "OpenW p \<in> set (fst (write_output lib w fs out data fmt))" for p fmt
    using write_output_open [OF that] by blast
  show "(fmt = ''json'' \<and> (\<exists>v. json_loads lib data = Inr v))
        \<or> (fmt = ''yaml'' \<and> yaml_installed lib \<and> (\<exists>v. yaml_safe_load lib data = Inr v))"
    if "OpenW p \<in> set (fst (write_output lib w fs out data fmt))" for p fmt
    using write_output_open [OF that] by blast
  show "OpenW out \<in> set (fst (write_output lib w fs out data fmt))"
    if "snd (write_output lib w fs out data fmt) \<noteq> fs" for fmt
    using that by (rule write_output_changed)
qed

theorem write_is_all_or_nothing_witness:
  "json_loads example_libs ''two files''
      = Inl (JSONDecodeError ''Expecting value: line 1 column 1 (char 0)'')
   \<and> write_output example_libs example_world Map.empty ''/out/report.json'' ''two files'' ''json''
      = ([Log ERROR ''Invalid JSON data: Expecting value: line 1 column 1 (char 0)''], Map.empty)
   \<and> yaml_installed (example_libs \<lparr>yaml_installed := True\<rparr>)
   \<and> yaml_safe_load (example_libs \<lparr>yaml_installed := True\<rparr>) ''a: b: c''
      = Inl (YAMLError ''mapping values are not allowed here'')
   \<and> write_output (example_libs \<lparr>yaml_installed := True\<rparr>) example_world Map.empty
        ''/out/report.yaml'' ''a: b: c'' ''yaml''
      = ([Log ERROR ''Invalid YAML data: mapping values are not allowed here''], Map.empty)
   \<and> OpenW ''/out/report.json''
        \<in> set (fst (write_output example_libs example_world Map.empty ''/out/report.json'' ''[2]'' ''json''))
   \<and> snd (write_output example_libs example_world Map.empty ''/out/report.json'' ''[2]'' ''json'')
        \<noteq> Map.empty
   \<and> (\<exists>v. json_loads example_libs ''[2]'' = Inr v)"
proof -
  let ?y = "example_libs \<lparr>yaml_installed := True\<rparr>"
  have j: "json_loads example_libs ''two files''
      = Inl (JSONDecodeError ''Expecting value: line 1 column 1 (char 0)'')"
    by (simp add: example_libs_def)
  have y: "yaml_installed ?y"
    "yaml_safe_load ?y ''a: b: c'' = Inl (YAMLError ''mapping values are not allowed here'')"
    by (simp_all add: example_libs_def)
  have changed: "snd (write_output example_libs example_world Map.empty ''/out/report.json'' ''[2]'' ''json'')
        \<noteq> Map.empty"
    by (simp add: write_output_def example_libs_def write_file_def example_world_def finish_write_def)
  from write_is_all_or_nothing [where lib = example_libs and data = "''two files''"
      and msg = "''Expecting value: line 1 column 1 (char 0)''" and w = example_world
      and fs = Map.empty and out = "''/out/report.json''"] j
  have a: "write_output example_libs example_world Map.empty ''/out/report.json'' ''two files'' ''json''
      = ([Log ERROR ''Invalid JSON data: Expecting value: line 1 column 1 (char 0)''], Map.empty)"
    by simp
  from write_is_all_or_nothing [where lib = ?y and data = "''a: b: c''"
      and msg = "''mapping values are not allowed here''" and w = example_world
      and fs = Map.empty and out = "''/out/report.yaml''"] y
  have b: "write_output ?y example_world Map.empty ''/out/report.yaml'' ''a: b: c'' ''yaml''
      = ([Log ERROR ''Invalid YAML data: mapping values are not allowed here''], Map.empty)"
    by simp
  from write_is_all_or_nothing [where lib = example_libs and data = "''[2]''" and w = example_world
      and fs = Map.empty and out = "''/out/report.json''"] changed
  have c: "OpenW ''/out/report.json''
        \<in> set (fst (write_output example_libs example_world Map.empty ''/out/report.json'' ''[2]'' ''json''))"
    by blast
  from write_is_all_or_nothing [where lib = example_libs and data = "''[2]''" and w = example_world
      and fs = Map.empty and out = "''/out/report.json''"] c y(1)
  have d: "\<exists>v. json_loads example_libs ''[2]'' = Inr v"
    by (auto simp: example_libs_def)
  from j a y b c changed d show ?thesis by blast
qed

text \<open>
  C10. A format other than \<open>json\<close> and \<open>yaml\<close> makes \<open>write_output\<close> log one error record
  and return: no file is opened, created, truncated or modified, and no exception is
  raised.
\<close>

theorem invalid_format_is_reported:
  assumes "fmt \<noteq> ''json''" and "fmt \<noteq> ''yaml''"
  shows "write_output lib w fs out data fmt = ([Log ERROR (''Invalid output format: '' @ fmt)], fs)"
  using assms by (simp add: write_output_def)

theorem invalid_format_is_reported_witness:
  "''xml'' \<noteq> ''json'' \<and> ''xml'' \<noteq> ''yaml''
   \<and> write_output example_libs example_world Map.empty ''/out/report.xml'' ''[2]'' ''xml''
       = ([Log ERROR ''Invalid output format: xml''], Map.empty)"
  using invalid_format_is_reported [of "''xml''" example_libs example_world Map.empty
      "''/out/report.xml''" "''[2]''"]
  by simp

section \<open>Properties of the JSON output\<close>























































section \<open>Properties of the exit status\<close>





end
